theory Spec2Isabelle
  imports Complex_Main "HOL-Library.Word"
begin

section \<open>PostgreSQL values used by the migrations\<close>

text \<open>
  The migrations store text, uuid, timestamptz and bytea values. Text and uuid values are
  strings, a timestamptz is its number of microseconds since the epoch, a bytea is a list
  of bytes.
\<close>

type_synonym uuid = string
type_synonym timestamptz = int
type_synonym bytea = "8 word list"

subsection \<open>The casts \<open>bytea::TEXT\<close> and \<open>text::bytea\<close>\<close>

text \<open>
  \<open>encrypt_token\<close> casts the bytea that \<open>pgp_sym_encrypt\<close> returns to TEXT and
  \<open>decrypt_token\<close> casts the stored text back with \<open>::bytea\<close>. PostgreSQL prints a
  bytea in its hex format, a backslash and \<open>x\<close> followed by two lower-case hex digits for
  each byte, and reads both the hex format (either case, white space allowed between
  bytes) and the escape format (a byte written as itself, a doubled backslash, or a
  backslash and three octal digits).
\<close>

definition backslash :: char where
  "backslash = CHR 0x5C"

definition hex_digit :: "nat \<Rightarrow> char" where
  "hex_digit n = ''0123456789abcdef'' ! n"

definition get_hex :: "char \<Rightarrow> nat option" where
  "get_hex c =
     (let n = (of_char c :: nat) in
      if 48 \<le> n \<and> n \<le> 57 then Some (n - 48)
      else if 97 \<le> n \<and> n \<le> 102 then Some (n - 87)
      else if 65 \<le> n \<and> n \<le> 70 then Some (n - 55)
      else None)"

definition hex_of_byte :: "8 word \<Rightarrow> string" where
  "hex_of_byte w = [hex_digit (unat w div 16), hex_digit (unat w mod 16)]"

definition byteaout :: "bytea \<Rightarrow> string" where
  "byteaout b = backslash # CHR ''x'' # concat (map hex_of_byte b)"

definition is_hex_space :: "char \<Rightarrow> bool" where
  "is_hex_space c = (c = CHR '' '' \<or> c = CHR 0x0A \<or> c = CHR 0x09 \<or> c = CHR 0x0D)"

fun hex_decode :: "string \<Rightarrow> bytea option" where
  "hex_decode [] = Some []"
| "hex_decode [c] = (if is_hex_space c then Some [] else None)"
| "hex_decode (c # d # ds) =
     (if is_hex_space c then hex_decode (d # ds)
      else (case get_hex c of
              None \<Rightarrow> None
            | Some h \<Rightarrow>
                (case get_hex d of
                   None \<Rightarrow> None
                 | Some l \<Rightarrow> map_option ((#) (word_of_nat (h * 16 + l))) (hex_decode ds))))"

definition is_octal :: "nat \<Rightarrow> char \<Rightarrow> bool" where
  "is_octal hi c = (48 \<le> (of_char c :: nat) \<and> (of_char c :: nat) \<le> 48 + hi)"

definition octal_val :: "char \<Rightarrow> nat" where
  "octal_val c = of_char c - 48"

fun escape_decode :: "string \<Rightarrow> bytea option" where
  "escape_decode [] = Some []"
| "escape_decode (c # cs) =
     (if c \<noteq> backslash then map_option ((#) (word_of_nat (of_char c))) (escape_decode cs)
      else (case cs of
              a # b # d # rest \<Rightarrow>
                if is_octal 3 a \<and> is_octal 7 b \<and> is_octal 7 d
                then map_option ((#) (word_of_nat (octal_val a * 64 + octal_val b * 8 + octal_val d)))
                       (escape_decode rest)
                else if a = backslash then map_option ((#) (word_of_nat (of_char backslash)))
                       (escape_decode (b # d # rest))
                else None
            | a # rest \<Rightarrow>
                if a = backslash then map_option ((#) (word_of_nat (of_char backslash)))
                       (escape_decode rest)
                else None
            | [] \<Rightarrow> None))"

definition byteain :: "string \<Rightarrow> bytea option" where
  "byteain s =
     (case s of
        c # x # rest \<Rightarrow> if c = backslash \<and> x = CHR ''x'' then hex_decode rest else escape_decode s
      | _ \<Rightarrow> escape_decode s)"


section \<open>The connection store and the credential vault\<close>

text \<open>
  The table \<open>user_connections\<close> and the functions of the token-encryption migration.
  A row has the columns of the \<open>CREATE TABLE\<close> statement. The column \<open>metadata\<close> is
  a JSONB that may be \<open>NULL\<close>, here \<open>None\<close>, and may hold any JSON value: the table
  does not require an object, and a client may write the column under the insert and
  update policies. A timestamp inside a JSONB is the JSON string that renders it; the model
  keeps the timestamp.
\<close>

datatype jsonb =
    Jsonb_null
  | Jsonb_bool bool
  | Jsonb_number int
  | Jsonb_string string
  | Jsonb_timestamp timestamptz
  | Jsonb_array "jsonb list"
  | Jsonb_object "string \<Rightarrow> jsonb option"

record user_connection =
  conn_id :: uuid
  user_id :: uuid
  broker_type :: string
  encrypted_token :: string
  is_active :: bool
  created_at :: timestamptz
  last_check_at :: "timestamptz option"
  metadata :: "jsonb option"

text \<open>
  The database as the functions see it: the rows of \<open>auth.users\<close> (their ids), the rows
  of \<open>user_connections\<close>, and the custom setting \<open>app.encryption_key\<close>, which may be
  unset.
\<close>

record database =
  auth_users :: "uuid list"
  user_connections :: "user_connection list"
  app_encryption_key :: "string option"

text \<open>
  The extension pgcrypto is not part of the repository: its two functions are parameters
  of the model. \<open>pgp_sym_decrypt\<close> raises an error on a wrong key or corrupt data.
\<close>

record pgcrypto =
  pgp_sym_encrypt :: "string \<Rightarrow> string \<Rightarrow> bytea"
  pgp_sym_decrypt :: "bytea \<Rightarrow> string \<Rightarrow> string option"

datatype error =
    Access_denied
  | User_not_found
  | Connection_not_found
  | Unique_violation string
  | Unrecognized_configuration_parameter string
  | Invalid_input_syntax_for_bytea
  | Wrong_key_or_corrupt_data
  | Cannot_set_path_in_scalar
  | Path_element_is_not_an_integer string

definition current_setting :: "database \<Rightarrow> string \<Rightarrow> error + string" where
  "current_setting db name =
     (if name = ''app.encryption_key''
      then (case app_encryption_key db of
              Some v \<Rightarrow> Inr v
            | None \<Rightarrow> Inl (Unrecognized_configuration_parameter name))
      else Inl (Unrecognized_configuration_parameter name))"

definition encrypt_token :: "pgcrypto \<Rightarrow> database \<Rightarrow> string \<Rightarrow> uuid \<Rightarrow> error + string" where
  "encrypt_token pg db p_token p_user_id =
     (case current_setting db ''app.encryption_key'' of
        Inl e \<Rightarrow> Inl e
      | Inr v_key \<Rightarrow> Inr (byteaout (pgp_sym_encrypt pg p_token v_key)))"

definition decrypt_token :: "pgcrypto \<Rightarrow> database \<Rightarrow> string \<Rightarrow> uuid \<Rightarrow> error + string" where
  "decrypt_token pg db p_encrypted_token p_user_id =
     (if \<not> list_ex (\<lambda>r. user_id r = p_user_id \<and> encrypted_token r = p_encrypted_token)
              (user_connections db)
      then Inl Access_denied
      else (case current_setting db ''app.encryption_key'' of
              Inl e \<Rightarrow> Inl e
            | Inr v_key \<Rightarrow>
                (case byteain p_encrypted_token of
                   None \<Rightarrow> Inl Invalid_input_syntax_for_bytea
                 | Some b \<Rightarrow>
                     (case pgp_sym_decrypt pg b v_key of
                        None \<Rightarrow> Inl Wrong_key_or_corrupt_data
                      | Some v_token \<Rightarrow> Inr v_token))))"

text \<open>
  \<open>create_user_connection\<close>. The id comes from \<open>uuid_generate_v4()\<close>, the time from
  \<open>now()\<close> and the role from \<open>current_user\<close>: they are arguments of the model. The
  values of the new row are computed first, so a failing \<open>encrypt_token\<close> aborts the
  statement; then the row is inserted, which the primary key and the constraint
  \<open>UNIQUE(user_id, broker_type)\<close> can refuse.
\<close>

definition insert_user_connection :: "user_connection \<Rightarrow> database \<Rightarrow> error + database" where
  "insert_user_connection row db =
     (if list_ex (\<lambda>r. conn_id r = conn_id row) (user_connections db)
      then Inl (Unique_violation ''user_connections_pkey'')
      else if list_ex (\<lambda>r. user_id r = user_id row \<and> broker_type r = broker_type row)
                (user_connections db)
      then Inl (Unique_violation ''user_connections_user_id_broker_type_key'')
      else Inr (db\<lparr>user_connections := user_connections db @ [row]\<rparr>))"

definition create_user_connection ::
  "pgcrypto \<Rightarrow> uuid \<Rightarrow> timestamptz \<Rightarrow> string \<Rightarrow> uuid \<Rightarrow> string \<Rightarrow> string \<Rightarrow> database
     \<Rightarrow> error + (uuid \<times> database)" where
  "create_user_connection pg new_id now current_user p_user_id p_broker_type p_token db =
     (if \<not> list_ex (\<lambda>u. u = p_user_id) (auth_users db) then Inl User_not_found
      else (case encrypt_token pg db p_token p_user_id of
              Inl e \<Rightarrow> Inl e
            | Inr tok \<Rightarrow>
                (case insert_user_connection
                        \<lparr>conn_id = new_id, user_id = p_user_id, broker_type = p_broker_type,
                         encrypted_token = tok, is_active = True, created_at = now,
                         last_check_at = None,
                         metadata = Some (Jsonb_object
                                            [''created_by'' \<mapsto> Jsonb_string current_user,
                                             ''created_at'' \<mapsto> Jsonb_timestamp now])\<rparr> db of
                   Inl e \<Rightarrow> Inl e
                 | Inr db' \<Rightarrow> Inr (new_id, db'))))"

text \<open>
  \<open>jsonb_set(target, path, new_value)\<close> for a path of one key that is not a number, as
  \<open>'{updated_at}'\<close> is. The function is strict: a \<open>NULL\<close> target gives \<open>NULL\<close>.
  In an object it sets the key, creating it when missing; in an array the key would have to
  be an index, and in a scalar no path can be set: both raise an error.
\<close>

definition jsonb_set :: "jsonb option \<Rightarrow> string \<Rightarrow> jsonb \<Rightarrow> error + jsonb option" where
  "jsonb_set target key new_value =
     (case target of
        None \<Rightarrow> Inr None
      | Some (Jsonb_object kvs) \<Rightarrow> Inr (Some (Jsonb_object (kvs(key \<mapsto> new_value))))
      | Some (Jsonb_array elements) \<Rightarrow> Inl (Path_element_is_not_an_integer key)
      | Some scalar \<Rightarrow> Inl Cannot_set_path_in_scalar)"

text \<open>
  An \<open>UPDATE ... SET ... WHERE\<close>: the new row is computed for every row that the
  condition selects, and an error in one of them aborts the statement.
\<close>

fun update_where ::
  "(user_connection \<Rightarrow> bool) \<Rightarrow> (user_connection \<Rightarrow> error + user_connection)
     \<Rightarrow> user_connection list \<Rightarrow> error + user_connection list" where
  "update_where cond set_row [] = Inr []"
| "update_where cond set_row (r # rs) =
     (case (if cond r then set_row r else Inr r) of
        Inl e \<Rightarrow> Inl e
      | Inr r' \<Rightarrow>
          (case update_where cond set_row rs of
             Inl e \<Rightarrow> Inl e
           | Inr rs' \<Rightarrow> Inr (r' # rs')))"

text \<open>
  \<open>update_user_connection_token\<close>: the owner is looked up by the id, and \<open>Connection
  not found\<close> is raised when there is no such row. Then every row with that id gets the
  encryption of the new token and the result of \<open>jsonb_set\<close> on its metadata.
\<close>

definition update_user_connection_token ::
  "pgcrypto \<Rightarrow> timestamptz \<Rightarrow> uuid \<Rightarrow> string \<Rightarrow> database \<Rightarrow> error + database" where
  "update_user_connection_token pg now p_connection_id p_new_token db =
     (case find (\<lambda>r. conn_id r = p_connection_id) (user_connections db) of
        None \<Rightarrow> Inl Connection_not_found
      | Some found \<Rightarrow>
          (case update_where (\<lambda>r. conn_id r = p_connection_id)
                  (\<lambda>r. case encrypt_token pg db p_new_token (user_id found) of
                          Inl e \<Rightarrow> Inl e
                        | Inr tok \<Rightarrow>
                            (case jsonb_set (metadata r) ''updated_at'' (Jsonb_timestamp now) of
                               Inl e \<Rightarrow> Inl e
                             | Inr m \<Rightarrow> Inr (r\<lparr>encrypted_token := tok, metadata := m\<rparr>)))
                  (user_connections db) of
             Inl e \<Rightarrow> Inl e
           | Inr rows \<Rightarrow> Inr (db\<lparr>user_connections := rows\<rparr>)))"

text \<open>
  \<open>get_active_connections\<close> is a \<open>LANGUAGE sql\<close> function whose body is one
  \<open>SELECT\<close>: it returns the rows and the database as it was.
\<close>

definition five_minutes :: int where
  "five_minutes = 5 * 60 * 1000000"

definition is_due :: "timestamptz \<Rightarrow> user_connection \<Rightarrow> bool" where
  "is_due now r =
     (is_active r = True \<and>
      (case last_check_at r of None \<Rightarrow> True | Some t \<Rightarrow> t < now - five_minutes))"

definition get_active_connections :: "timestamptz \<Rightarrow> database \<Rightarrow> user_connection list \<times> database" where
  "get_active_connections now db = (filter (is_due now) (user_connections db), db)"

section \<open>Notifications: the table and the hook \<open>useNotifications\<close>\<close>

text \<open>
  A row of the table \<open>notifications\<close> with the columns the hook reads and writes. The
  column \<open>data\<close> is carried unchanged by every operation below and is left out.
\<close>

record notification =
  notif_id :: string
  notif_user_id :: uuid
  notif_type :: string
  status :: string
  notif_created_at :: timestamptz

text \<open>
  The request \<open>update({status: 'read'}).eq('id', notificationId)\<close> as the database runs
  it for the signed-in user: the policy on \<open>UPDATE\<close> restricts it to that user's rows. An
  update of a row that is read already, or of no row, is not an error.
\<close>

definition update_status_read :: "uuid \<Rightarrow> string \<Rightarrow> notification list \<Rightarrow> notification list" where
  "update_status_read uid notificationId table =
     map (\<lambda>n. if notif_id n = notificationId \<and> notif_user_id n = uid
              then n\<lparr>status := ''read''\<rparr> else n) table"

text \<open>
  The state of the hook. What a \<open>catch\<close> block receives is either an \<open>Error\<close> with its
  message or some other value, for which the hook shows a fixed message.
\<close>

datatype thrown = Error_instance string | Not_an_Error

definition message_or :: "thrown \<Rightarrow> string \<Rightarrow> string" where
  "message_or err fallback = (case err of Error_instance m \<Rightarrow> m | Not_an_Error \<Rightarrow> fallback)"

record hook_state =
  notifications :: "notification list"
  unreadCount :: int
  loading :: bool
  error :: "string option"

definition loadNotifications :: "thrown + notification list \<Rightarrow> hook_state \<Rightarrow> hook_state" where
  "loadNotifications response st =
     (case response of
        Inl fetchError \<Rightarrow>
          st\<lparr>loading := False, error := Some (message_or fetchError ''Failed to load notifications'')\<rparr>
      | Inr rows \<Rightarrow>
          st\<lparr>notifications := rows,
             unreadCount := int (length (filter (\<lambda>n. status n = ''unread'') rows)),
             loading := False, error := None\<rparr>)"

definition on_insert :: "notification \<Rightarrow> hook_state \<Rightarrow> hook_state" where
  "on_insert payload_new st =
     st\<lparr>notifications := payload_new # notifications st, unreadCount := unreadCount st + 1\<rparr>"

text \<open>
  \<open>markAsRead\<close> sends the update and, unless the response carries an error, rewrites the
  local list and decrements the counter. The pair is the table on the server and the state
  of the hook; \<open>updateError\<close> is the error of the response, if any.
\<close>

definition markAsRead ::
  "thrown option \<Rightarrow> uuid \<Rightarrow> string \<Rightarrow> notification list \<times> hook_state
     \<Rightarrow> notification list \<times> hook_state" where
  "markAsRead updateError uid notificationId s =
     (case updateError of
        Some err \<Rightarrow>
          (fst s, (snd s)\<lparr>error := Some (message_or err ''Failed to mark notification as read'')\<rparr>)
      | None \<Rightarrow>
          (update_status_read uid notificationId (fst s),
           (snd s)\<lparr>notifications :=
                      map (\<lambda>n. if notif_id n = notificationId then n\<lparr>status := ''read''\<rparr> else n)
                          (notifications (snd s)),
                    unreadCount := unreadCount (snd s) - 1\<rparr>))"

definition markAllAsRead ::
  "thrown option \<Rightarrow> uuid \<Rightarrow> notification list \<times> hook_state
     \<Rightarrow> notification list \<times> hook_state" where
  "markAllAsRead updateError uid s =
     (case updateError of
        Some err \<Rightarrow>
          (fst s, (snd s)\<lparr>error := Some (message_or err ''Failed to mark all notifications as read'')\<rparr>)
      | None \<Rightarrow>
          (map (\<lambda>n. if notif_user_id n = uid \<and> status n = ''unread''
                   then n\<lparr>status := ''read''\<rparr> else n) (fst s),
           (snd s)\<lparr>notifications := map (\<lambda>n. n\<lparr>status := ''read''\<rparr>) (notifications (snd s)),
                    unreadCount := 0\<rparr>))"

definition unread_in :: "notification list \<Rightarrow> int" where
  "unread_in ns = int (length (filter (\<lambda>n. status n = ''unread'') ns))"

section \<open>The edge function \<open>mcp-agent\<close>\<close>

text \<open>
  The body of a request after \<open>req.json()\<close>: a JSON value. Numbers are restricted to
  integers: the property key of a number is its decimal rendering, which is never one of
  the names that the dispatch looks up.
\<close>

datatype json =
    JNull
  | JBool bool
  | JNumber int
  | JString string
  | JArray "json list"
  | JObject "(string \<times> json) list"

datatype RequestType = portfolio | analysis | chat

datatype js_exception = SyntaxError | TypeError

text \<open>
  The text of a response's \<open>error\<close> field: a message the handler wrote itself, or the
  message of an exception that the runtime raised, whose wording is the runtime's.
\<close>

datatype message = Message string | Runtime_message js_exception

datatype body =
    Text string
  | Envelope bool "RequestType option" "message option"
  | No_body

text \<open>
  What the handler reads of a request: the method, the header \<open>content-length\<close> as a
  number (\<open>None\<close> when the header is absent or empty, for which the handler takes 0) and
  the body as \<open>req.json()\<close> parses it (\<open>None\<close> when it is not JSON and the call
  throws a \<open>SyntaxError\<close>).
\<close>

record request =
  req_method :: string
  content_length :: "nat option"
  json_body :: "json option"

record response =
  http_status :: nat
  body :: body

definition maxRequestSize :: nat where
  "maxRequestSize = 1024 * 1024"

text \<open>
  \<open>mockResponses\<close> is an object literal: it has its three own keys and inherits the
  members of \<open>Object.prototype\<close>, which the operator \<open>in\<close> finds as well. Indexing it
  by an own key gives the mock response of that type. Indexing it by an inherited name
  gives a built-in function or, for \<open>__proto__\<close> on Deno, \<open>undefined\<close>.
\<close>

datatype member = Mock RequestType | Inherited

definition Object_prototype :: "string list" where
  "Object_prototype =
     [''constructor'', ''hasOwnProperty'', ''isPrototypeOf'', ''propertyIsEnumerable'',
      ''toLocaleString'', ''toString'', ''valueOf'', ''__defineGetter__'', ''__defineSetter__'',
      ''__lookupGetter__'', ''__lookupSetter__'', ''__proto__'']"

definition mockResponses :: "string \<Rightarrow> member option" where
  "mockResponses key =
     (if key = ''portfolio'' then Some (Mock portfolio)
      else if key = ''analysis'' then Some (Mock analysis)
      else if key = ''chat'' then Some (Mock chat)
      else if key \<in> set Object_prototype then Some Inherited
      else None)"

text \<open>
  \<open>JSON.stringify\<close> of what the lookup returned, as the body of the response: the
  envelope of a mock response, and \<open>undefined\<close> for an inherited member (a function or
  \<open>undefined\<close>), which makes the body empty.
\<close>

definition stringify :: "member \<Rightarrow> body" where
  "stringify m = (case m of Mock t \<Rightarrow> Envelope True (Some t) None | Inherited \<Rightarrow> No_body)"

text \<open>
  The destructuring \<open>const { type } = ...\<close>: it throws on \<open>null\<close>, reads the own
  property of an object (the last one where the text repeats the key) and gives
  \<open>undefined\<close>, here \<open>None\<close>, on every other value.
\<close>

definition destructure_type :: "json \<Rightarrow> js_exception + json option" where
  "destructure_type v =
     (case v of
        JNull \<Rightarrow> Inl TypeError
      | JObject kvs \<Rightarrow> Inr (map_of (rev kvs) ''type'')
      | _ \<Rightarrow> Inr None)"

fun truthy :: "json option \<Rightarrow> bool" where
  "truthy None = False"
| "truthy (Some JNull) = False"
| "truthy (Some (JBool b)) = b"
| "truthy (Some (JNumber n)) = (n \<noteq> 0)"
| "truthy (Some (JString s)) = (s \<noteq> [])"
| "truthy (Some (JArray xs)) = True"
| "truthy (Some (JObject kvs)) = True"

text \<open>
  The conversion of the left operand of \<open>in\<close> to a property key. A string is its own key,
  an array joins the keys of its elements with commas (\<open>null\<close> gives the empty string),
  an object is \<open>[object Object]\<close> unless it has an own property \<open>toString\<close>, which is never
  callable in parsed JSON and makes the conversion throw a \<open>TypeError\<close>, here \<open>None\<close>.
\<close>

definition digit_char :: "nat \<Rightarrow> char" where
  "digit_char n = char_of (48 + n)"

fun digits :: "nat \<Rightarrow> string" where
  "digits n = (if n < 10 then [digit_char n] else digits (n div 10) @ [digit_char (n mod 10)])"

definition number_to_string :: "int \<Rightarrow> string" where
  "number_to_string n = (if n < 0 then CHR ''-'' # digits (nat (- n)) else digits (nat n))"

fun toPropertyKey :: "json \<Rightarrow> string option"
  and join :: "json list \<Rightarrow> string option" where
  "toPropertyKey JNull = Some ''null''"
| "toPropertyKey (JBool b) = Some (if b then ''true'' else ''false'')"
| "toPropertyKey (JNumber n) = Some (number_to_string n)"
| "toPropertyKey (JString s) = Some s"
| "toPropertyKey (JArray xs) = join xs"
| "toPropertyKey (JObject kvs) =
     (if ''toString'' \<in> set (map fst kvs) then None else Some ''[object Object]'')"
| "join [] = Some []"
| "join (x # xs) =
     (case (if x = JNull then Some [] else toPropertyKey x) of
        None \<Rightarrow> None
      | Some s \<Rightarrow>
          (if xs = [] then Some s
           else (case join xs of None \<Rightarrow> None | Some t \<Rightarrow> Some (s @ '','' @ t))))"

definition try_block :: "request \<Rightarrow> message + body" where
  "try_block req =
     (if (case content_length req of None \<Rightarrow> 0 | Some n \<Rightarrow> n) > maxRequestSize
      then Inl (Message ''Request body too large'')
      else (case json_body req of
              None \<Rightarrow> Inl (Runtime_message SyntaxError)
            | Some v \<Rightarrow>
                (case destructure_type v of
                   Inl e \<Rightarrow> Inl (Runtime_message e)
                 | Inr type_field \<Rightarrow>
                     if \<not> truthy type_field then Inl (Message ''Invalid request type'')
                     else (case toPropertyKey (the type_field) of
                             None \<Rightarrow> Inl (Runtime_message TypeError)
                           | Some key \<Rightarrow>
                               (case mockResponses key of
                                  None \<Rightarrow> Inl (Message ''Invalid request type'')
                                | Some m \<Rightarrow> Inr (stringify m))))))"

definition serve :: "request \<Rightarrow> response" where
  "serve req =
     (if req_method req = ''OPTIONS'' then \<lparr>http_status = 200, body = Text ''ok''\<rparr>
      else (case try_block req of
              Inr b \<Rightarrow> \<lparr>http_status = 200, body = b\<rparr>
            | Inl m \<Rightarrow> \<lparr>http_status = 400, body = Envelope False None (Some m)\<rparr>))"

section \<open>The portfolio monitor\<close>

text \<open>
  Modelled from the spec: the handler \<open>src/agent/tasks/portfolio_monitor.py\<close> that the
  task configuration names is not among the sources. A snapshot as the specification's
  data model and the table \<open>portfolio_snapshots\<close> have it; \<open>total_value\<close> is a
  \<open>DECIMAL(20, 2)\<close>, kept in hundredths. The positions play no part in the rule.
\<close>

record portfolio_snapshot =
  snapshot_owner :: uuid
  account_ref :: string
  snapshot_timestamp :: timestamptz
  total_value :: int

text \<open>
  The threshold of the task configuration, \<open>change_threshold: 5.0\<close>, a percentage.
\<close>

definition change_threshold :: rat where
  "change_threshold = 5 / 100"

text \<open>
  Modelled from the spec: \<open>pct_change = (current.total_value - previous.total_value) /
  previous.total_value\<close>. The specification does not say what happens when the previous
  value is zero; the quotient does not exist then, and the model returns \<open>None\<close>.
\<close>

definition pct_change :: "portfolio_snapshot \<Rightarrow> portfolio_snapshot \<Rightarrow> rat option" where
  "pct_change previous current =
     (if total_value previous = 0 then None
      else Some ((of_int (total_value current) - of_int (total_value previous))
                 / of_int (total_value previous)))"

text \<open>
  Modelled from the spec: the hysteresis state is the last-alerted snapshot of each owner
  and account. The current value has already triggered an alert when it has not moved past
  the threshold relative to that snapshot.
\<close>

type_synonym hysteresis = "uuid \<times> string \<rightharpoonup> portfolio_snapshot"

definition already_alerted :: "rat \<Rightarrow> hysteresis \<Rightarrow> portfolio_snapshot \<Rightarrow> bool" where
  "already_alerted threshold last_alerted current =
     (case last_alerted (snapshot_owner current, account_ref current) of
        None \<Rightarrow> False
      | Some reference \<Rightarrow>
          (case pct_change reference current of
             None \<Rightarrow> False
           | Some p \<Rightarrow> \<bar>p\<bar> < threshold))"

text \<open>
  Modelled from the spec: one step of the monitor on the two most recent snapshots of an
  owner and account. It returns the types of the notifications it appends and the new
  hysteresis state: an alert makes the current snapshot the last-alerted one.
\<close>

definition portfolio_monitor ::
  "rat \<Rightarrow> hysteresis \<Rightarrow> portfolio_snapshot \<Rightarrow> portfolio_snapshot \<Rightarrow> string list \<times> hysteresis" where
  "portfolio_monitor threshold last_alerted previous current =
     (case pct_change previous current of
        None \<Rightarrow> ([], last_alerted)
      | Some p \<Rightarrow>
          if \<bar>p\<bar> \<ge> threshold \<and> \<not> already_alerted threshold last_alerted current
          then ([''portfolio_change''],
                last_alerted((snapshot_owner current, account_ref current) \<mapsto> current))
          else ([], last_alerted))"

text \<open>
  Modelled from the spec: the monitor runs once per polling cycle, each time on the two
  most recent snapshots. A run over the successive snapshots of one owner and account
  returns what each cycle appends and the final hysteresis state.
\<close>

fun monitor_run ::
  "rat \<Rightarrow> hysteresis \<Rightarrow> portfolio_snapshot list \<Rightarrow> string list list \<times> hysteresis" where
  "monitor_run threshold last_alerted (previous # current # later) =
     (case portfolio_monitor threshold last_alerted previous current of
        (appended, last_alerted') \<Rightarrow>
          (case monitor_run threshold last_alerted' (current # later) of
             (rest, final) \<Rightarrow> (appended # rest, final)))"
| "monitor_run threshold last_alerted snapshots = ([], last_alerted)"

section \<open>Concrete inputs\<close>

text \<open>
  A stand-in for pgcrypto on which the functions can be run: it prefixes the text with the
  key, and decrypting checks the prefix.
\<close>

definition bytes_of :: "string \<Rightarrow> bytea" where
  "bytes_of s = map (\<lambda>c. word_of_nat (of_char c)) s"

definition string_of :: "bytea \<Rightarrow> string" where
  "string_of b = map (\<lambda>w. char_of (unat w)) b"

definition prefix_cipher :: pgcrypto where
  "prefix_cipher =
     \<lparr>pgp_sym_encrypt = (\<lambda>s k. bytes_of (k @ s)),
      pgp_sym_decrypt = (\<lambda>b k. if take (length k) (string_of b) = k
                                then Some (drop (length k) (string_of b)) else None)\<rparr>"

definition connection_of :: "uuid \<Rightarrow> uuid \<Rightarrow> string \<Rightarrow> user_connection" where
  "connection_of i u tok =
     \<lparr>conn_id = i, user_id = u, broker_type = ''tinkoff'', encrypted_token = tok,
      is_active = True, created_at = 0, last_check_at = None,
      metadata = Some (Jsonb_object Map.empty)\<rparr>"

definition ciphertext_tok :: string where
  "ciphertext_tok = byteaout (bytes_of ''ktok'')"

definition empty_db :: database where
  "empty_db = \<lparr>auth_users = [''u1'', ''u2''], user_connections = [], app_encryption_key = Some ''k''\<rparr>"

definition one_db :: database where
  "one_db = empty_db\<lparr>user_connections := [connection_of ''c1'' ''u1'' ciphertext_tok]\<rparr>"

definition null_metadata_db :: database where
  "null_metadata_db = empty_db\<lparr>user_connections :=
     [(connection_of ''c1'' ''u1'' ciphertext_tok)\<lparr>metadata := None\<rparr>]\<rparr>"

definition array_metadata_db :: database where
  "array_metadata_db = empty_db\<lparr>user_connections :=
     [(connection_of ''c1'' ''u1'' ciphertext_tok)\<lparr>metadata := Some (Jsonb_array [Jsonb_string ''x''])\<rparr>]\<rparr>"

definition shared_db :: database where
  "shared_db = empty_db\<lparr>user_connections :=
     [connection_of ''c1'' ''u1'' ciphertext_tok, connection_of ''c2'' ''u2'' ciphertext_tok]\<rparr>"

definition note1 :: notification where
  "note1 = \<lparr>notif_id = ''n1'', notif_user_id = ''u1'', notif_type = ''portfolio_change'',
            status = ''unread'', notif_created_at = 0\<rparr>"

definition loaded :: "notification list \<times> hook_state" where
  "loaded = ([note1],
     loadNotifications (Inr [note1])
       \<lparr>notifications = [], unreadCount = 0, loading = True, error = None\<rparr>)"

definition snapshot_of :: "int \<Rightarrow> timestamptz \<Rightarrow> portfolio_snapshot" where
  "snapshot_of v t =
     \<lparr>snapshot_owner = ''u1'', account_ref = ''acc'', snapshot_timestamp = t, total_value = v\<rparr>"

text \<open>
  The foreign key of \<open>user_connections.user_id\<close>: every row belongs to a user of
  \<open>auth.users\<close>.
\<close>

definition references_auth_users :: "database \<Rightarrow> bool" where
  "references_auth_users db =
     list_all (\<lambda>r. list_ex (\<lambda>u. u = user_id r) (auth_users db)) (user_connections db)"

definition post :: "nat option \<Rightarrow> json \<Rightarrow> request" where
  "post len v = \<lparr>req_method = ''POST'', content_length = len, json_body = Some v\<rparr>"

section \<open>The casts are inverse to each other\<close>

lemma hex_digits_checked:
  "list_all (\<lambda>n. get_hex (hex_digit n) = Some n \<and> \<not> is_hex_space (hex_digit n)) [0..<16]"
  by code_simp

lemma get_hex_hex_digit: "n < 16 \<Longrightarrow> get_hex (hex_digit n) = Some n"
  using hex_digits_checked by (simp add: list_all_iff)

lemma hex_digit_not_space: "n < 16 \<Longrightarrow> \<not> is_hex_space (hex_digit n)"
  using hex_digits_checked by (simp add: list_all_iff)

lemma hex_decode_hex_of_byte:
  "hex_decode (hex_of_byte w @ s) = map_option ((#) w) (hex_decode s)"
proof -
  have lo: "unat w mod 16 < 16" by simp
  have "unat w < 256" using unsigned_less [of w, where ?'a = nat] by simp
  then have hi: "unat w div 16 < 16" by simp
  show ?thesis
    using get_hex_hex_digit [OF hi] get_hex_hex_digit [OF lo] hex_digit_not_space [OF hi]
    by (simp add: hex_of_byte_def)
qed

lemma hex_decode_concat: "hex_decode (concat (map hex_of_byte b)) = Some b"
  by (induction b) (simp_all add: hex_decode_hex_of_byte)

lemma byteain_byteaout: "byteain (byteaout b) = Some b"
  by (simp add: byteain_def byteaout_def hex_decode_concat)

section \<open>The credential vault\<close>

lemma encrypt_token_key:
  "app_encryption_key db = Some k \<Longrightarrow>
   encrypt_token pg db s u = Inr (byteaout (pgp_sym_encrypt pg s k))"
  by (simp add: encrypt_token_def current_setting_def)

lemma decrypt_token_denied_iff:
  "decrypt_token pg db c u = Inl Access_denied \<longleftrightarrow>
   \<not> (\<exists>r \<in> set (user_connections db). user_id r = u \<and> encrypted_token r = c)"
  by (auto simp: decrypt_token_def current_setting_def list_ex_iff
           split: option.splits sum.splits)

lemma string_of_bytes_of: "string_of (bytes_of s) = s"
proof (induction s)
  case Nil
  then show ?case by (simp add: string_of_def bytes_of_def)
next
  case (Cons c s)
  have "of_char c < (256::nat)" by simp
  then have "unat (word_of_nat (of_char c) :: 8 word) = of_char c"
    by (simp add: unat_of_nat)
  with Cons show ?case by (simp add: string_of_def bytes_of_def)
qed

lemma prefix_cipher_inverse:
  "pgp_sym_decrypt prefix_cipher (pgp_sym_encrypt prefix_cipher s k) k = Some s"
  by (simp add: prefix_cipher_def string_of_bytes_of)

lemma ciphertext_tok_eq:
  "ciphertext_tok = byteaout (pgp_sym_encrypt prefix_cipher ''tok'' ''k'')"
  by (simp add: ciphertext_tok_def prefix_cipher_def)

lemma decrypt_ciphertext_tok:
  assumes "app_encryption_key db = Some ''k''"
    and "list_ex (\<lambda>r. user_id r = u \<and> encrypted_token r = ciphertext_tok) (user_connections db)"
  shows "decrypt_token prefix_cipher db ciphertext_tok u = Inr ''tok''"
  using assms prefix_cipher_inverse [of "''tok''" "''k''"]
  by (simp add: decrypt_token_def current_setting_def ciphertext_tok_eq byteain_byteaout)

text \<open>
  C1. A secret encrypted under the key \<open>k\<close> and stored in a row of the owner \<open>u\<close> is
  returned by \<open>decrypt_token\<close> for the requestor \<open>u\<close> under the same key, whenever
  pgcrypto decrypts what it encrypted.
\<close>

theorem decrypt_encrypt_round_trip:
  assumes "app_encryption_key db0 = Some k"
    and "app_encryption_key db = Some k"
    and "pgp_sym_decrypt pg (pgp_sym_encrypt pg s k) k = Some s"
    and "encrypt_token pg db0 s u = Inr c"
    and "r \<in> set (user_connections db)" and "user_id r = u" and "encrypted_token r = c"
  shows "decrypt_token pg db c u = Inr s"
proof -
  have c: "c = byteaout (pgp_sym_encrypt pg s k)"
    using assms(1,4) by (simp add: encrypt_token_key)
  have "list_ex (\<lambda>x. user_id x = u \<and> encrypted_token x = c) (user_connections db)"
    using assms(5-7) by (auto simp: list_ex_iff)
  then show ?thesis
    using assms(2,3) by (simp add: decrypt_token_def current_setting_def c byteain_byteaout)
qed

theorem decrypt_encrypt_round_trip_witness:
  "encrypt_token prefix_cipher empty_db ''tok'' ''u1'' = Inr ciphertext_tok
   \<and> connection_of ''c1'' ''u1'' ciphertext_tok \<in> set (user_connections one_db)
   \<and> decrypt_token prefix_cipher one_db ciphertext_tok ''u1'' = Inr ''tok''"
proof -
  have key0: "app_encryption_key empty_db = Some ''k''" by (simp add: empty_db_def)
  have key1: "app_encryption_key one_db = Some ''k''" by (simp add: one_db_def empty_db_def)
  have enc: "encrypt_token prefix_cipher empty_db ''tok'' ''u1'' = Inr ciphertext_tok"
    by (simp add: encrypt_token_key [OF key0] ciphertext_tok_eq)
  have row: "connection_of ''c1'' ''u1'' ciphertext_tok \<in> set (user_connections one_db)"
    by (simp add: one_db_def)
  have "decrypt_token prefix_cipher one_db ciphertext_tok ''u1'' = Inr ''tok''"
    by (rule decrypt_encrypt_round_trip [OF key0 key1 prefix_cipher_inverse enc row])
       (simp_all add: connection_of_def)
  with enc row show ?thesis by simp
qed

text \<open>
  C2, as the code has it. \<open>decrypt_token\<close> fails with \<open>Access denied\<close>, and returns no
  text, whenever every row that holds the ciphertext belongs to an owner other than the
  requestor. The function has no record-owner argument: it looks for a row of the
  requestor that holds the ciphertext.
\<close>

theorem decrypt_denied_for_other_owners:
  assumes "\<forall>r \<in> set (user_connections db). encrypted_token r = c \<longrightarrow> user_id r \<noteq> u"
  shows "decrypt_token pg db c u = Inl Access_denied \<and> (\<forall>s. decrypt_token pg db c u \<noteq> Inr s)"
proof -
  have "decrypt_token pg db c u = Inl Access_denied"
    using assms by (auto simp: decrypt_token_denied_iff)
  then show ?thesis by simp
qed

theorem decrypt_denied_for_other_owners_witness:
  "map user_id (filter (\<lambda>r. encrypted_token r = ciphertext_tok) (user_connections one_db)) = [''u1'']
   \<and> decrypt_token prefix_cipher one_db ciphertext_tok ''u2'' = Inl Access_denied"
proof -
  have h: "\<forall>r \<in> set (user_connections one_db). encrypted_token r = ciphertext_tok \<longrightarrow> user_id r \<noteq> ''u2''"
    by (simp add: one_db_def connection_of_def)
  have "map user_id (filter (\<lambda>r. encrypted_token r = ciphertext_tok) (user_connections one_db)) = [''u1'']"
    by (simp add: one_db_def connection_of_def)
  with decrypt_denied_for_other_owners [OF h, of prefix_cipher] show ?thesis by simp
qed

text \<open>
  The claim C2 as stated fails. In \<open>shared_db\<close> the rows of \<open>u1\<close> and of \<open>u2\<close> hold the
  same ciphertext; the requestor \<open>u2\<close> differs from the record owner \<open>u1\<close>, and
  \<open>decrypt_token\<close> returns the plaintext.
\<close>

theorem decrypt_other_owner_counterexample:
  "user_id (user_connections shared_db ! 0) = ''u1''
   \<and> encrypted_token (user_connections shared_db ! 0) = ciphertext_tok
   \<and> ''u2'' \<noteq> ''u1''
   \<and> decrypt_token prefix_cipher shared_db ciphertext_tok ''u2'' = Inr ''tok''"
proof -
  have "decrypt_token prefix_cipher shared_db ciphertext_tok ''u2'' = Inr ''tok''"
    by (rule decrypt_ciphertext_tok) (simp_all add: shared_db_def empty_db_def connection_of_def)
  then show ?thesis by (simp add: shared_db_def connection_of_def)
qed

text \<open>
  C10. \<open>decrypt_token\<close> raises \<open>Access denied\<close> exactly when no row of the requestor
  holds the ciphertext, so it returns a text only for a ciphertext stored in a row of the
  requestor; a ciphertext that \<open>encrypt_token\<close> has produced and that no row holds is
  refused for every requestor, whatever the key.
\<close>

theorem decrypt_only_stored_ciphertext:
  "(decrypt_token pg db c u = Inl Access_denied \<longleftrightarrow>
      \<not> (\<exists>r \<in> set (user_connections db). user_id r = u \<and> encrypted_token r = c))
   \<and> (decrypt_token pg db c u = Inr s \<longrightarrow>
        (\<exists>r \<in> set (user_connections db). user_id r = u \<and> encrypted_token r = c))
   \<and> (encrypt_token pg db0 s v = Inr c \<and> c \<notin> encrypted_token ` set (user_connections db) \<longrightarrow>
        (\<forall>w. decrypt_token pg db c w = Inl Access_denied))"
proof (intro conjI impI)
  show "decrypt_token pg db c u = Inl Access_denied \<longleftrightarrow>
      \<not> (\<exists>r \<in> set (user_connections db). user_id r = u \<and> encrypted_token r = c)"
    by (rule decrypt_token_denied_iff)
next
  assume "decrypt_token pg db c u = Inr s"
  then have "decrypt_token pg db c u \<noteq> Inl Access_denied" by simp
  then show "\<exists>r \<in> set (user_connections db). user_id r = u \<and> encrypted_token r = c"
    by (simp add: decrypt_token_denied_iff)
next
  assume "encrypt_token pg db0 s v = Inr c \<and> c \<notin> encrypted_token ` set (user_connections db)"
  then have "\<And>w. \<not> (\<exists>r \<in> set (user_connections db). user_id r = w \<and> encrypted_token r = c)"
    by auto
  then show "\<forall>w. decrypt_token pg db c w = Inl Access_denied"
    by (simp add: decrypt_token_denied_iff)
qed

theorem decrypt_only_stored_ciphertext_witness:
  "encrypt_token prefix_cipher empty_db ''tok'' ''u1'' = Inr ciphertext_tok
   \<and> ciphertext_tok \<notin> encrypted_token ` set (user_connections empty_db)
   \<and> decrypt_token prefix_cipher empty_db ciphertext_tok ''u1'' = Inl Access_denied
   \<and> decrypt_token prefix_cipher one_db ciphertext_tok ''u1'' = Inr ''tok''
   \<and> (\<exists>r \<in> set (user_connections one_db). user_id r = ''u1'' \<and> encrypted_token r = ciphertext_tok)"
proof -
  have key0: "app_encryption_key empty_db = Some ''k''" by (simp add: empty_db_def)
  have enc: "encrypt_token prefix_cipher empty_db ''tok'' ''u1'' = Inr ciphertext_tok"
    by (simp add: encrypt_token_key [OF key0] ciphertext_tok_eq)
  have fresh: "ciphertext_tok \<notin> encrypted_token ` set (user_connections empty_db)"
    by (simp add: empty_db_def)
  have dec: "decrypt_token prefix_cipher one_db ciphertext_tok ''u1'' = Inr ''tok''"
    by (rule decrypt_ciphertext_tok) (simp_all add: one_db_def empty_db_def connection_of_def)
  note at_empty = decrypt_only_stored_ciphertext
    [of prefix_cipher empty_db ciphertext_tok "''u1''" "''tok''" empty_db "''u1''"]
  note at_one = decrypt_only_stored_ciphertext
    [of prefix_cipher one_db ciphertext_tok "''u1''" "''tok''" empty_db "''u1''"]
  from at_empty enc fresh have "decrypt_token prefix_cipher empty_db ciphertext_tok ''u1'' = Inl Access_denied"
    by blast
  moreover from at_one dec
  have "\<exists>r \<in> set (user_connections one_db). user_id r = ''u1'' \<and> encrypted_token r = ciphertext_tok"
    by blast
  ultimately show ?thesis using enc fresh dec by simp
qed


section \<open>The connection store\<close>

lemma create_unknown_user:
  "p_user_id \<notin> set (auth_users db) \<Longrightarrow>
   create_user_connection pg new_id now cu p_user_id p_broker_type p_token db = Inl User_not_found"
  by (simp add: create_user_connection_def list_ex_iff)

lemma insert_existing_pair:
  assumes "r \<in> set (user_connections db)"
    and "user_id r = user_id row" and "broker_type r = broker_type row"
  shows "\<exists>c. insert_user_connection row db = Inl (Unique_violation c)"
proof -
  have "list_ex (\<lambda>x. user_id x = user_id row \<and> broker_type x = broker_type row)
          (user_connections db)"
    using assms by (auto simp: list_ex_iff)
  then show ?thesis by (simp add: insert_user_connection_def)
qed

lemma create_existing_pair:
  assumes "references_auth_users db" and "app_encryption_key db = Some k"
    and "r \<in> set (user_connections db)"
    and "user_id r = p_user_id" and "broker_type r = p_broker_type"
  shows "\<exists>c. create_user_connection pg new_id now cu p_user_id p_broker_type p_token db
              = Inl (Unique_violation c)"
proof -
  have known: "list_ex (\<lambda>u. u = p_user_id) (auth_users db)"
    using assms(1,3,4) by (auto simp: references_auth_users_def list_all_iff)
  let ?row = "\<lparr>conn_id = new_id, user_id = p_user_id, broker_type = p_broker_type,
               encrypted_token = byteaout (pgp_sym_encrypt pg p_token k), is_active = True,
               created_at = now, last_check_at = None,
               metadata = Some (Jsonb_object [''created_by'' \<mapsto> Jsonb_string cu,
                                              ''created_at'' \<mapsto> Jsonb_timestamp now])\<rparr>"
  obtain c where "insert_user_connection ?row db = Inl (Unique_violation c)"
    using insert_existing_pair [OF assms(3), of ?row] assms(4,5) by auto
  then show ?thesis
    using known by (simp add: create_user_connection_def encrypt_token_key [OF assms(2)])
qed

lemma create_fresh_pair:
  assumes "app_encryption_key db = Some k"
    and "p_user_id \<in> set (auth_users db)"
    and "\<not> (\<exists>r \<in> set (user_connections db). user_id r = p_user_id \<and> broker_type r = p_broker_type)"
    and "new_id \<notin> conn_id ` set (user_connections db)"
  shows "create_user_connection pg new_id now cu p_user_id p_broker_type p_token db =
         Inr (new_id, db\<lparr>user_connections := user_connections db @
           [\<lparr>conn_id = new_id, user_id = p_user_id, broker_type = p_broker_type,
             encrypted_token = byteaout (pgp_sym_encrypt pg p_token k), is_active = True,
             created_at = now, last_check_at = None,
             metadata = Some (Jsonb_object [''created_by'' \<mapsto> Jsonb_string cu,
                                            ''created_at'' \<mapsto> Jsonb_timestamp now])\<rparr>]\<rparr>)"
proof -
  have known: "list_ex (\<lambda>u. u = p_user_id) (auth_users db)"
    using assms(2) by (simp add: list_ex_iff)
  have no_id: "\<not> list_ex (\<lambda>r. conn_id r = new_id) (user_connections db)"
    using assms(4) by (auto simp: list_ex_iff)
  have no_pair: "\<not> list_ex (\<lambda>r. user_id r = p_user_id \<and> broker_type r = p_broker_type)
                     (user_connections db)"
    using assms(3) by (simp add: list_ex_iff)
  show ?thesis
    using known no_id no_pair
    by (simp add: create_user_connection_def encrypt_token_key [OF assms(1)]
                  insert_user_connection_def)
qed

text \<open>
  C4. In a database that has its encryption key and respects the foreign key of
  \<open>user_connections\<close>: \<open>create_user_connection\<close> raises \<open>User not found\<close> for an
  unknown owner, is refused by a unique constraint when a connection of the owner and
  broker type exists, and otherwise, given an unused id, inserts the connection, after
  which every further creation for the same owner and broker type is refused by a unique
  constraint.
\<close>

theorem create_conflict_and_not_found:
  assumes "references_auth_users db" and "app_encryption_key db = Some k"
  shows "(p_user_id \<notin> set (auth_users db) \<longrightarrow>
            create_user_connection pg new_id now cu p_user_id p_broker_type p_token db
              = Inl User_not_found)
       \<and> ((\<exists>r \<in> set (user_connections db). user_id r = p_user_id \<and> broker_type r = p_broker_type) \<longrightarrow>
            (\<exists>c. create_user_connection pg new_id now cu p_user_id p_broker_type p_token db
                   = Inl (Unique_violation c)))
       \<and> (p_user_id \<in> set (auth_users db)
            \<and> \<not> (\<exists>r \<in> set (user_connections db). user_id r = p_user_id \<and> broker_type r = p_broker_type)
            \<and> new_id \<notin> conn_id ` set (user_connections db) \<longrightarrow>
            (\<exists>db' row.
               create_user_connection pg new_id now cu p_user_id p_broker_type p_token db
                 = Inr (new_id, db')
               \<and> user_connections db' = user_connections db @ [row]
               \<and> conn_id row = new_id \<and> user_id row = p_user_id \<and> broker_type row = p_broker_type
               \<and> encrypt_token pg db p_token p_user_id = Inr (encrypted_token row)
               \<and> (\<forall>new_id2 now2 cu2 p_token2. \<exists>c.
                     create_user_connection pg new_id2 now2 cu2 p_user_id p_broker_type p_token2 db'
                       = Inl (Unique_violation c))))"
proof (intro conjI impI)
  assume "p_user_id \<notin> set (auth_users db)"
  then show "create_user_connection pg new_id now cu p_user_id p_broker_type p_token db
               = Inl User_not_found"
    by (rule create_unknown_user)
next
  assume "\<exists>r \<in> set (user_connections db). user_id r = p_user_id \<and> broker_type r = p_broker_type"
  then show "\<exists>c. create_user_connection pg new_id now cu p_user_id p_broker_type p_token db
                   = Inl (Unique_violation c)"
    using create_existing_pair [OF assms] by blast
next
  assume fresh: "p_user_id \<in> set (auth_users db)
      \<and> \<not> (\<exists>r \<in> set (user_connections db). user_id r = p_user_id \<and> broker_type r = p_broker_type)
      \<and> new_id \<notin> conn_id ` set (user_connections db)"
  let ?row = "\<lparr>conn_id = new_id, user_id = p_user_id, broker_type = p_broker_type,
               encrypted_token = byteaout (pgp_sym_encrypt pg p_token k), is_active = True,
               created_at = now, last_check_at = None,
               metadata = Some (Jsonb_object [''created_by'' \<mapsto> Jsonb_string cu,
                                              ''created_at'' \<mapsto> Jsonb_timestamp now])\<rparr>"
  let ?db' = "db\<lparr>user_connections := user_connections db @ [?row]\<rparr>"
  have created: "create_user_connection pg new_id now cu p_user_id p_broker_type p_token db
                   = Inr (new_id, ?db')"
    using fresh by (intro create_fresh_pair [OF assms(2)]) simp_all
  have fk': "references_auth_users ?db'"
    using assms(1) fresh by (simp add: references_auth_users_def list_ex_iff)
  have key': "app_encryption_key ?db' = Some k"
    using assms(2) by simp
  have again: "\<exists>c. create_user_connection pg i t u p_user_id p_broker_type p ?db'
                    = Inl (Unique_violation c)" for i t u p
    by (rule create_existing_pair [OF fk' key', of ?row]) simp_all
  show "\<exists>db' row.
          create_user_connection pg new_id now cu p_user_id p_broker_type p_token db
            = Inr (new_id, db')
          \<and> user_connections db' = user_connections db @ [row]
          \<and> conn_id row = new_id \<and> user_id row = p_user_id \<and> broker_type row = p_broker_type
          \<and> encrypt_token pg db p_token p_user_id = Inr (encrypted_token row)
          \<and> (\<forall>new_id2 now2 cu2 p_token2. \<exists>c.
                create_user_connection pg new_id2 now2 cu2 p_user_id p_broker_type p_token2 db'
                  = Inl (Unique_violation c))"
    using created again
    by (intro exI [of _ ?db'] exI [of _ ?row]) (simp add: encrypt_token_key [OF assms(2)])
qed

theorem create_conflict_and_not_found_witness:
  "create_user_connection prefix_cipher ''c9'' 7 ''authenticated'' ''u9'' ''X'' ''t1'' empty_db
     = Inl User_not_found
   \<and> (\<exists>c. create_user_connection prefix_cipher ''c2'' 7 ''authenticated'' ''u1'' ''tinkoff'' ''t2'' one_db
            = Inl (Unique_violation c))
   \<and> (\<exists>db'. create_user_connection prefix_cipher ''c1'' 7 ''authenticated'' ''u1'' ''X'' ''t1'' empty_db
               = Inr (''c1'', db')
             \<and> (\<exists>c. create_user_connection prefix_cipher ''c2'' 8 ''authenticated'' ''u1'' ''X'' ''t2'' db'
                      = Inl (Unique_violation c)))"
proof -
  have fk0: "references_auth_users empty_db"
    by (simp add: references_auth_users_def empty_db_def)
  have key0: "app_encryption_key empty_db = Some ''k''"
    by (simp add: empty_db_def)
  have fk1: "references_auth_users one_db"
    by (simp add: references_auth_users_def one_db_def empty_db_def connection_of_def)
  have key1: "app_encryption_key one_db = Some ''k''"
    by (simp add: one_db_def empty_db_def)
  have a: "create_user_connection prefix_cipher ''c9'' 7 ''authenticated'' ''u9'' ''X'' ''t1'' empty_db
             = Inl User_not_found"
    using create_conflict_and_not_found [OF fk0 key0, of "''u9''" prefix_cipher "''c9''" 7
        "''authenticated''" "''X''" "''t1''"]
    by (simp add: empty_db_def)
  have b: "\<exists>c. create_user_connection prefix_cipher ''c2'' 7 ''authenticated'' ''u1'' ''tinkoff'' ''t2'' one_db
             = Inl (Unique_violation c)"
    using create_conflict_and_not_found [OF fk1 key1, of "''u1''" prefix_cipher "''c2''" 7
        "''authenticated''" "''tinkoff''" "''t2''"]
    by (simp add: one_db_def empty_db_def connection_of_def)
  have c: "\<exists>db'. create_user_connection prefix_cipher ''c1'' 7 ''authenticated'' ''u1'' ''X'' ''t1'' empty_db
               = Inr (''c1'', db')
             \<and> (\<exists>c. create_user_connection prefix_cipher ''c2'' 8 ''authenticated'' ''u1'' ''X'' ''t2'' db'
                      = Inl (Unique_violation c))"
  proof -
    have pre: "''u1'' \<in> set (auth_users empty_db)
       \<and> \<not> (\<exists>r \<in> set (user_connections empty_db). user_id r = ''u1'' \<and> broker_type r = ''X'')
       \<and> ''c1'' \<notin> conn_id ` set (user_connections empty_db)"
      by (simp add: empty_db_def)
    from create_conflict_and_not_found [OF fk0 key0, of "''u1''" prefix_cipher "''c1''" 7
        "''authenticated''" "''X''" "''t1''"] pre
    obtain db' where
      "create_user_connection prefix_cipher ''c1'' 7 ''authenticated'' ''u1'' ''X'' ''t1'' empty_db
         = Inr (''c1'', db')"
      and "\<forall>new_id2 now2 cu2 p_token2. \<exists>c.
             create_user_connection prefix_cipher new_id2 now2 cu2 ''u1'' ''X'' p_token2 db'
               = Inl (Unique_violation c)"
      by blast
    then show ?thesis by blast
  qed
  from a b c show ?thesis by simp
qed


lemma find_conn_id:
  "r \<in> set rows \<Longrightarrow> \<exists>found. find (\<lambda>x. conn_id x = conn_id r) rows = Some found"
  by (cases "find (\<lambda>x. conn_id x = conn_id r) rows") (auto simp: find_None_iff)

lemma update_where_total:
  "list_all (\<lambda>r. cond r \<longrightarrow> set_row r = Inr (new_row r)) rows \<Longrightarrow>
   update_where cond set_row rows = Inr (map (\<lambda>r. if cond r then new_row r else r) rows)"
  by (induction rows) simp_all

text \<open>
  What \<open>update_user_connection_token\<close> does where the metadata of the rows with the
  given id are JSON objects: it succeeds and changes those rows only. Such a row gets a
  token that \<open>decrypt_token\<close> turns back into the new secret for the owner of the row
  (whenever pgcrypto decrypts what it encrypted) and \<open>updated_at\<close> set to the current
  time, and it keeps its id, owner, broker type, activity flag, \<open>created_at\<close>,
  \<open>last_check_at\<close> and every other key of its metadata.
\<close>

lemma update_token_object_metadata:
  assumes "r \<in> set (user_connections db)" and "conn_id r = p_connection_id"
    and "app_encryption_key db = Some k"
    and "list_all (\<lambda>x. conn_id x = p_connection_id \<longrightarrow>
                      (\<exists>kvs. metadata x = Some (Jsonb_object kvs))) (user_connections db)"
  shows "update_user_connection_token pg now p_connection_id p_new_token db =
         Inr (db\<lparr>user_connections :=
                map (\<lambda>x. if conn_id x = p_connection_id
                         then x\<lparr>encrypted_token := byteaout (pgp_sym_encrypt pg p_new_token k),
                                metadata := (case metadata x of
                                               Some (Jsonb_object kvs) \<Rightarrow>
                                                 Some (Jsonb_object
                                                   (kvs(''updated_at'' \<mapsto> Jsonb_timestamp now)))
                                             | other \<Rightarrow> other)\<rparr>
                         else x)
                    (user_connections db)\<rparr>)"
proof -
  obtain found where found:
    "find (\<lambda>x. conn_id x = p_connection_id) (user_connections db) = Some found"
    using find_conn_id [OF assms(1)] assms(2) by auto
  let ?set = "\<lambda>x. case encrypt_token pg db p_new_token (user_id found) of
                      Inl e \<Rightarrow> Inl e
                    | Inr tok \<Rightarrow>
                        (case jsonb_set (metadata x) ''updated_at'' (Jsonb_timestamp now) of
                           Inl e \<Rightarrow> Inl e
                         | Inr m \<Rightarrow> Inr (x\<lparr>encrypted_token := tok, metadata := m\<rparr>))"
  let ?new = "\<lambda>x. x\<lparr>encrypted_token := byteaout (pgp_sym_encrypt pg p_new_token k),
                     metadata := (case metadata x of
                                    Some (Jsonb_object kvs) \<Rightarrow>
                                      Some (Jsonb_object
                                        (kvs(''updated_at'' \<mapsto> Jsonb_timestamp now)))
                                  | other \<Rightarrow> other)\<rparr>"
  have "list_all (\<lambda>x. conn_id x = p_connection_id \<longrightarrow> ?set x = Inr (?new x)) (user_connections db)"
    using assms(4)
    by (auto simp: list_all_iff encrypt_token_key [OF assms(3)] jsonb_set_def)
  then have "update_where (\<lambda>x. conn_id x = p_connection_id) ?set (user_connections db)
      = Inr (map (\<lambda>x. if conn_id x = p_connection_id then ?new x else x) (user_connections db))"
    by (rule update_where_total)
  then show ?thesis
    by (simp add: update_user_connection_token_def found)
qed

lemma update_token_stores_new_secret:
  assumes "r \<in> set (user_connections db)" and "conn_id r = p_connection_id"
    and "app_encryption_key db = Some k"
    and "list_all (\<lambda>x. conn_id x = p_connection_id \<longrightarrow>
                      (\<exists>kvs. metadata x = Some (Jsonb_object kvs))) (user_connections db)"
    and "pgp_sym_decrypt pg (pgp_sym_encrypt pg p_new_token k) k = Some p_new_token"
  shows "\<exists>db' r'. update_user_connection_token pg now p_connection_id p_new_token db = Inr db'
           \<and> r' \<in> set (user_connections db')
           \<and> conn_id r' = conn_id r \<and> created_at r' = created_at r \<and> user_id r' = user_id r
           \<and> decrypt_token pg db' (encrypted_token r') (user_id r) = Inr p_new_token
           \<and> (\<exists>kvs. metadata r' = Some (Jsonb_object kvs)
                 \<and> kvs ''updated_at'' = Some (Jsonb_timestamp now))"
proof -
  let ?tok = "byteaout (pgp_sym_encrypt pg p_new_token k)"
  let ?new = "\<lambda>x. x\<lparr>encrypted_token := ?tok,
                     metadata := (case metadata x of
                                    Some (Jsonb_object kvs) \<Rightarrow>
                                      Some (Jsonb_object
                                        (kvs(''updated_at'' \<mapsto> Jsonb_timestamp now)))
                                  | other \<Rightarrow> other)\<rparr>"
  let ?rows = "map (\<lambda>x. if conn_id x = p_connection_id then ?new x else x) (user_connections db)"
  let ?db' = "db\<lparr>user_connections := ?rows\<rparr>"
  have res: "update_user_connection_token pg now p_connection_id p_new_token db = Inr ?db'"
    by (rule update_token_object_metadata [OF assms(1-4)])
  have mem: "?new r \<in> set ?rows"
    using assms(1,2) by (auto simp: image_iff intro!: bexI [of _ r])
  obtain kvs where kvs: "metadata r = Some (Jsonb_object kvs)"
    using assms(1,2,4) by (auto simp: list_all_iff)
  have "list_ex (\<lambda>x. user_id x = user_id r \<and> encrypted_token x = ?tok) ?rows"
    unfolding list_ex_iff using mem by (intro bexI [of _ "?new r"]) simp_all
  then have dec: "decrypt_token pg ?db' ?tok (user_id r) = Inr p_new_token"
    using assms(3,5) by (simp add: decrypt_token_def current_setting_def byteain_byteaout)
  show ?thesis
    using res mem dec kvs
    by (intro exI [of _ ?db'] exI [of _ "?new r"]) simp
qed

lemma byteaout_knew: "byteaout (bytes_of ''knew'') = CHR 0x5C # ''x6b6e6577''"
  by code_simp

text \<open>
  C9 fails on the code. The connection \<open>c1\<close> of \<open>null_metadata_db\<close> has \<open>NULL\<close>
  metadata. \<open>update_user_connection_token\<close> succeeds on it and stores the encryption of
  the new token, which \<open>decrypt_token\<close> turns back into the new token for the owner; the
  id and \<open>created_at\<close> are kept, but the metadata is still \<open>NULL\<close> afterwards, so no
  \<open>updated_at\<close> is recorded. Where the metadata is a JSON array, the call raises an error
  and stores nothing.
\<close>

theorem update_token_skips_updated_at:
  "map metadata (user_connections null_metadata_db) = [None]
   \<and> update_user_connection_token prefix_cipher 42 ''c1'' ''new'' null_metadata_db
       = Inr (empty_db\<lparr>user_connections :=
                [(connection_of ''c1'' ''u1'' (CHR 0x5C # ''x6b6e6577''))\<lparr>metadata := None\<rparr>]\<rparr>)
   \<and> decrypt_token prefix_cipher
         (empty_db\<lparr>user_connections :=
            [(connection_of ''c1'' ''u1'' (CHR 0x5C # ''x6b6e6577''))\<lparr>metadata := None\<rparr>]\<rparr>)
         (CHR 0x5C # ''x6b6e6577'') ''u1'' = Inr ''new''
   \<and> update_user_connection_token prefix_cipher 42 ''c1'' ''new'' array_metadata_db
       = Inl (Path_element_is_not_an_integer ''updated_at'')"
proof -
  have enc: "encrypt_token prefix_cipher db ''new'' u = Inr (CHR 0x5C # ''x6b6e6577'')"
    if "app_encryption_key db = Some ''k''" for db u
    using that by (simp add: encrypt_token_key prefix_cipher_def byteaout_knew)
  have a: "map metadata (user_connections null_metadata_db) = [None]"
    by (simp add: null_metadata_db_def)
  have b: "update_user_connection_token prefix_cipher 42 ''c1'' ''new'' null_metadata_db
       = Inr (empty_db\<lparr>user_connections :=
                [(connection_of ''c1'' ''u1'' (CHR 0x5C # ''x6b6e6577''))\<lparr>metadata := None\<rparr>]\<rparr>)"
    by (simp add: update_user_connection_token_def enc jsonb_set_def)
       (simp add: null_metadata_db_def empty_db_def connection_of_def enc jsonb_set_def)
  have tok: "byteaout (pgp_sym_encrypt prefix_cipher ''new'' ''k'') = CHR 0x5C # ''x6b6e6577''"
    by (simp add: prefix_cipher_def byteaout_knew)
  have "decrypt_token prefix_cipher
         (empty_db\<lparr>user_connections :=
            [(connection_of ''c1'' ''u1'' (byteaout (pgp_sym_encrypt prefix_cipher ''new'' ''k'')))
               \<lparr>metadata := None\<rparr>]\<rparr>)
         (byteaout (pgp_sym_encrypt prefix_cipher ''new'' ''k'')) ''u1'' = Inr ''new''"
    by (simp add: decrypt_token_def current_setting_def byteain_byteaout prefix_cipher_inverse
                  empty_db_def connection_of_def)
  then have c: "decrypt_token prefix_cipher
         (empty_db\<lparr>user_connections :=
            [(connection_of ''c1'' ''u1'' (CHR 0x5C # ''x6b6e6577''))\<lparr>metadata := None\<rparr>]\<rparr>)
         (CHR 0x5C # ''x6b6e6577'') ''u1'' = Inr ''new''"
    by (simp only: tok)
  have d: "update_user_connection_token prefix_cipher 42 ''c1'' ''new'' array_metadata_db
       = Inl (Path_element_is_not_an_integer ''updated_at'')"
    by (simp add: update_user_connection_token_def array_metadata_db_def empty_db_def
                  connection_of_def enc jsonb_set_def)
  from a b c d show ?thesis by simp
qed

text \<open>
  C3, as the code has it. \<open>get_active_connections\<close> only reads: it returns the active
  connections never checked or last checked more than five minutes before \<open>now\<close> and
  leaves the database, and so every \<open>last_check_at\<close>, as it was. A second selection at
  the same or a later time, with no update in between, returns every connection that
  the first one returned.
\<close>

theorem get_active_connections_reads_only:
  "snd (get_active_connections now db) = db
   \<and> (r \<in> set (fst (get_active_connections now db)) \<longleftrightarrow>
        r \<in> set (user_connections db) \<and> is_active r
        \<and> (last_check_at r = None \<or> (\<exists>t. last_check_at r = Some t \<and> t < now - 5 * 60 * 1000000)))
   \<and> (now \<le> now' \<longrightarrow>
        set (fst (get_active_connections now db))
          \<subseteq> set (fst (get_active_connections now' (snd (get_active_connections now db)))))"
  by (auto simp: get_active_connections_def is_due_def five_minutes_def split: option.splits)

theorem get_active_connections_reads_only_witness:
  "(0::int) \<le> 1
   \<and> map conn_id (fst (get_active_connections 0 one_db)) = [''c1'']
   \<and> set (fst (get_active_connections 0 one_db))
       \<subseteq> set (fst (get_active_connections 1 (snd (get_active_connections 0 one_db))))"
proof -
  have "map conn_id (fst (get_active_connections 0 one_db)) = [''c1'']"
    by (simp add: get_active_connections_def one_db_def empty_db_def is_due_def connection_of_def)
  moreover
  have "set (fst (get_active_connections 0 one_db))
       \<subseteq> set (fst (get_active_connections 1 (snd (get_active_connections 0 one_db))))"
    using get_active_connections_reads_only [of 0 one_db "connection_of ''c1'' ''u1'' ciphertext_tok" 1]
    by linarith
  ultimately show ?thesis by simp
qed

text \<open>
  The claim C3 as stated fails. The connection \<open>c1\<close> of \<open>one_db\<close> is selected at time 0;
  after the selection its \<open>last_check_at\<close> is still unset, and a second selection, one
  microsecond later and with no update in between, selects it again.
\<close>

theorem selection_claims_nothing_counterexample:
  "map conn_id (fst (get_active_connections 0 one_db)) = [''c1'']
   \<and> map last_check_at (user_connections (snd (get_active_connections 0 one_db))) = [None]
   \<and> map conn_id (fst (get_active_connections 1 (snd (get_active_connections 0 one_db)))) = [''c1'']"
  by (simp add: get_active_connections_def one_db_def empty_db_def is_due_def connection_of_def)


section \<open>Notifications\<close>

lemma update_status_read_twice:
  "update_status_read uid nid (update_status_read uid nid table) = update_status_read uid nid table"
  by (induction table) (simp_all add: update_status_read_def)

lemma update_status_read_noop:
  "\<forall>n \<in> set table. notif_id n = nid \<and> notif_user_id n = uid \<longrightarrow> status n = ''read'' \<Longrightarrow>
   update_status_read uid nid table = table"
  by (induction table) (simp_all add: update_status_read_def)

lemma mark_list_twice:
  "map (\<lambda>n. if notif_id n = nid then n\<lparr>status := ''read''\<rparr> else n)
     (map (\<lambda>n. if notif_id n = nid then n\<lparr>status := ''read''\<rparr> else n) ns)
   = map (\<lambda>n. if notif_id n = nid then n\<lparr>status := ''read''\<rparr> else n) ns"
  by (induction ns) simp_all

lemma mark_list_noop:
  "\<forall>n \<in> set ns. notif_id n = nid \<longrightarrow> status n = ''read'' \<Longrightarrow>
   map (\<lambda>n. if notif_id n = nid then n\<lparr>status := ''read''\<rparr> else n) ns = ns"
  by (induction ns) simp_all

lemma fst_markAsRead: "fst (markAsRead None uid nid s) = update_status_read uid nid (fst s)"
  by (simp add: markAsRead_def)

lemma notifications_markAsRead:
  "notifications (snd (markAsRead None uid nid s)) =
   map (\<lambda>n. if notif_id n = nid then n\<lparr>status := ''read''\<rparr> else n) (notifications (snd s))"
  by (simp add: markAsRead_def)

lemma error_markAsRead: "error (snd (markAsRead None uid nid s)) = error (snd s)"
  by (simp add: markAsRead_def)

lemma update_status_read_status:
  "list_all (\<lambda>n. notif_id n = nid \<and> notif_user_id n = uid \<longrightarrow> status n = ''read'')
     (update_status_read uid nid table)"
  by (induction table) (auto simp: update_status_read_def)

lemma mark_list_status:
  "list_all (\<lambda>n. notif_id n = nid \<longrightarrow> status n = ''read'')
     (map (\<lambda>n. if notif_id n = nid then n\<lparr>status := ''read''\<rparr> else n) ns)"
  by (induction ns) simp_all

lemma unread_in_all_read: "unread_in (map (\<lambda>n. n\<lparr>status := ''read''\<rparr>) ns) = 0"
  by (induction ns) (simp_all add: unread_in_def)

text \<open>
  Where the hook keeps its counter equal to the number of unread notifications of its
  list: loading, the arrival of an unread notification, and marking all as read.
\<close>

lemma counter_kept:
  "unreadCount (loadNotifications (Inr rows) st)
     = unread_in (notifications (loadNotifications (Inr rows) st))"
  "unreadCount st = unread_in (notifications st) \<Longrightarrow> status payload_new = ''unread'' \<Longrightarrow>
   unreadCount (on_insert payload_new st) = unread_in (notifications (on_insert payload_new st))"
  "unreadCount (snd (markAllAsRead None uid s))
     = unread_in (notifications (snd (markAllAsRead None uid s)))"
  by (simp_all add: loadNotifications_def on_insert_def markAllAsRead_def unread_in_def
                    unread_in_all_read [unfolded unread_in_def])

text \<open>
  What a repeated \<open>markAsRead\<close> keeps: when the update succeeds, every notification
  with the given id is read afterwards, on the server (for the rows of the signed-in user)
  and in the local list, and no error is set; a second call changes neither the table nor
  the list nor the error.
\<close>

lemma markAsRead_status:
  "(\<forall>n \<in> set (fst (markAsRead None uid nid s)).
        notif_id n = nid \<and> notif_user_id n = uid \<longrightarrow> status n = ''read'')
   \<and> (\<forall>n \<in> set (notifications (snd (markAsRead None uid nid s))).
        notif_id n = nid \<longrightarrow> status n = ''read'')
   \<and> error (snd (markAsRead None uid nid s)) = error (snd s)
   \<and> fst (markAsRead None uid nid (markAsRead None uid nid s)) = fst (markAsRead None uid nid s)
   \<and> notifications (snd (markAsRead None uid nid (markAsRead None uid nid s)))
       = notifications (snd (markAsRead None uid nid s))
   \<and> error (snd (markAsRead None uid nid (markAsRead None uid nid s)))
       = error (snd (markAsRead None uid nid s))
   \<and> ((\<forall>n \<in> set (fst s). notif_id n = nid \<and> notif_user_id n = uid \<longrightarrow> status n = ''read'') \<longrightarrow>
        fst (markAsRead None uid nid s) = fst s)
   \<and> ((\<forall>n \<in> set (notifications (snd s)). notif_id n = nid \<longrightarrow> status n = ''read'') \<longrightarrow>
        notifications (snd (markAsRead None uid nid s)) = notifications (snd s))"
proof (intro conjI impI)
  show "\<forall>n \<in> set (fst (markAsRead None uid nid s)).
          notif_id n = nid \<and> notif_user_id n = uid \<longrightarrow> status n = ''read''"
    using update_status_read_status [of nid uid "fst s"]
    by (simp only: fst_markAsRead list_all_iff)
  show "\<forall>n \<in> set (notifications (snd (markAsRead None uid nid s))).
          notif_id n = nid \<longrightarrow> status n = ''read''"
    using mark_list_status [of nid "notifications (snd s)"]
    by (simp only: notifications_markAsRead list_all_iff)
  show "error (snd (markAsRead None uid nid s)) = error (snd s)"
    by (rule error_markAsRead)
  show "fst (markAsRead None uid nid (markAsRead None uid nid s)) = fst (markAsRead None uid nid s)"
    by (simp only: fst_markAsRead update_status_read_twice)
  show "notifications (snd (markAsRead None uid nid (markAsRead None uid nid s)))
          = notifications (snd (markAsRead None uid nid s))"
    by (simp only: notifications_markAsRead mark_list_twice)
  show "error (snd (markAsRead None uid nid (markAsRead None uid nid s)))
          = error (snd (markAsRead None uid nid s))"
    by (rule error_markAsRead)
next
  assume "\<forall>n \<in> set (fst s). notif_id n = nid \<and> notif_user_id n = uid \<longrightarrow> status n = ''read''"
  then show "fst (markAsRead None uid nid s) = fst s"
    by (simp only: fst_markAsRead update_status_read_noop)
next
  assume "\<forall>n \<in> set (notifications (snd s)). notif_id n = nid \<longrightarrow> status n = ''read''"
  then show "notifications (snd (markAsRead None uid nid s)) = notifications (snd s)"
    by (simp only: notifications_markAsRead mark_list_noop)
qed

lemma markAsRead_decrements:
  "unreadCount (snd (markAsRead None uid nid s)) = unreadCount (snd s) - 1"
  by (simp add: markAsRead_def)

text \<open>
  C8 fails on the code. After one successful \<open>markAsRead\<close> the notification \<open>n1\<close> is
  read and the counter is 0. A second successful call on the same id leaves the status
  \<open>read\<close> and sets no error, but it is not a no-op: it decrements the counter to \<open>-1\<close>,
  so the state of the hook after two calls differs from the state after one.
\<close>

theorem markAsRead_twice_differs:
  "map status (notifications (snd (markAsRead None ''u1'' ''n1'' loaded))) = [''read'']
   \<and> unreadCount (snd (markAsRead None ''u1'' ''n1'' loaded)) = 0
   \<and> map status (notifications (snd (markAsRead None ''u1'' ''n1'' (markAsRead None ''u1'' ''n1'' loaded))))
       = [''read'']
   \<and> error (snd (markAsRead None ''u1'' ''n1'' (markAsRead None ''u1'' ''n1'' loaded))) = None
   \<and> unreadCount (snd (markAsRead None ''u1'' ''n1'' (markAsRead None ''u1'' ''n1'' loaded))) = - 1
   \<and> snd (markAsRead None ''u1'' ''n1'' (markAsRead None ''u1'' ''n1'' loaded))
       \<noteq> snd (markAsRead None ''u1'' ''n1'' loaded)"
proof -
  let ?once = "markAsRead None ''u1'' ''n1'' loaded"
  let ?twice = "markAsRead None ''u1'' ''n1'' ?once"
  have one: "map status (notifications (snd ?once)) = [''read''] \<and> unreadCount (snd ?once) = 0"
    by (simp add: markAsRead_def loaded_def loadNotifications_def note1_def)
  have two: "map status (notifications (snd ?twice)) = [''read'']
      \<and> error (snd ?twice) = None \<and> unreadCount (snd ?twice) = - 1"
    by (simp add: markAsRead_def loaded_def loadNotifications_def note1_def)
  from one two have "unreadCount (snd ?twice) \<noteq> unreadCount (snd ?once)" by simp
  then have "snd ?twice \<noteq> snd ?once" by auto
  with one two show ?thesis by simp
qed

text \<open>
  C5 fails on the code. After loading one unread notification the counter is right; two
  successful calls of \<open>markAsRead\<close> for it leave no unread notification, in the list and
  on the server, and the counter at \<open>-1\<close>: the second call decrements it although the
  notification is read already.
\<close>

theorem unreadCount_diverges:
  "unreadCount (snd loaded) = unread_in (notifications (snd loaded))
   \<and> unreadCount (snd (markAsRead None ''u1'' ''n1'' (markAsRead None ''u1'' ''n1'' loaded))) = - 1
   \<and> unread_in (notifications (snd (markAsRead None ''u1'' ''n1'' (markAsRead None ''u1'' ''n1'' loaded)))) = 0
   \<and> unread_in (fst (markAsRead None ''u1'' ''n1'' (markAsRead None ''u1'' ''n1'' loaded))) = 0"
  by (simp add: markAsRead_def loaded_def loadNotifications_def update_status_read_def note1_def
                unread_in_def)


section \<open>The edge function\<close>

lemma serve_error:
  "req_method req \<noteq> ''OPTIONS'' \<Longrightarrow> try_block req = Inl m \<Longrightarrow>
   serve req = \<lparr>http_status = 400, body = Envelope False None (Some m)\<rparr>"
  by (simp add: serve_def)

lemma try_block_too_large:
  "maxRequestSize < (case content_length req of None \<Rightarrow> 0 | Some n \<Rightarrow> n) \<Longrightarrow>
   try_block req = Inl (Message ''Request body too large'')"
  by (simp add: try_block_def)

lemma try_block_invalid:
  assumes "(case content_length req of None \<Rightarrow> 0 | Some n \<Rightarrow> n) \<le> maxRequestSize"
    and "json_body req = Some v" and "destructure_type v = Inr type_field"
    and "\<not> truthy type_field
         \<or> (\<exists>key. toPropertyKey (the type_field) = Some key \<and> mockResponses key = None)"
  shows "try_block req = Inl (Message ''Invalid request type'')"
  using assms by (auto simp: try_block_def)

lemma mockResponses_None:
  "mockResponses key = None \<longleftrightarrow>
   key \<notin> {''portfolio'', ''analysis'', ''chat''} \<union> set Object_prototype"
  by (auto simp: mockResponses_def Object_prototype_def)

lemma serve_status_400:
  "http_status (serve req) = 400 \<Longrightarrow> \<exists>m. body (serve req) = Envelope False None (Some m)"
  by (auto simp: serve_def split: if_splits sum.splits)

text \<open>
  C7, as the code has it. A request other than \<open>OPTIONS\<close>, within the size limit, whose
  body is a JSON value other than \<open>null\<close> and whose discriminant is missing or falsy, or
  converts to a property key that is neither \<open>portfolio\<close>, \<open>analysis\<close> or \<open>chat\<close> nor a
  name inherited from \<open>Object.prototype\<close>, is answered with status 400,
  \<open>success: false\<close>, the error \<open>Invalid request type\<close> and no data. A larger request
  is answered with status 400 and the error \<open>Request body too large\<close>, whatever its
  discriminant; and every response with status 400 is an envelope with \<open>success: false\<close>,
  an error and no data.
\<close>

theorem invalid_request_type:
  "(req_method req \<noteq> ''OPTIONS''
      \<and> (case content_length req of None \<Rightarrow> 0 | Some n \<Rightarrow> n) \<le> maxRequestSize
      \<and> json_body req = Some v \<and> destructure_type v = Inr type_field
      \<and> (\<not> truthy type_field
           \<or> (\<exists>key. toPropertyKey (the type_field) = Some key
                 \<and> key \<notin> {''portfolio'', ''analysis'', ''chat''} \<union> set Object_prototype)) \<longrightarrow>
      serve req = \<lparr>http_status = 400,
                    body = Envelope False None (Some (Message ''Invalid request type''))\<rparr>)
   \<and> (req_method req \<noteq> ''OPTIONS''
      \<and> maxRequestSize < (case content_length req of None \<Rightarrow> 0 | Some n \<Rightarrow> n) \<longrightarrow>
      serve req = \<lparr>http_status = 400,
                    body = Envelope False None (Some (Message ''Request body too large''))\<rparr>)
   \<and> (http_status (serve req) = 400 \<longrightarrow>
        (\<exists>m. body (serve req) = Envelope False None (Some m)))"
proof (intro conjI impI)
  assume a: "req_method req \<noteq> ''OPTIONS''
      \<and> (case content_length req of None \<Rightarrow> 0 | Some n \<Rightarrow> n) \<le> maxRequestSize
      \<and> json_body req = Some v \<and> destructure_type v = Inr type_field
      \<and> (\<not> truthy type_field
           \<or> (\<exists>key. toPropertyKey (the type_field) = Some key
                 \<and> key \<notin> {''portfolio'', ''analysis'', ''chat''} \<union> set Object_prototype))"
  then have "try_block req = Inl (Message ''Invalid request type'')"
    by (intro try_block_invalid [of req v type_field]) (simp_all only: mockResponses_None)
  moreover from a have "req_method req \<noteq> ''OPTIONS''" by (rule conjunct1)
  ultimately show "serve req = \<lparr>http_status = 400,
      body = Envelope False None (Some (Message ''Invalid request type''))\<rparr>"
    by (intro serve_error)
next
  assume "req_method req \<noteq> ''OPTIONS''
      \<and> maxRequestSize < (case content_length req of None \<Rightarrow> 0 | Some n \<Rightarrow> n)"
  then show "serve req = \<lparr>http_status = 400,
      body = Envelope False None (Some (Message ''Request body too large''))\<rparr>"
    by (intro serve_error try_block_too_large) simp_all
next
  assume "http_status (serve req) = 400"
  then show "\<exists>m. body (serve req) = Envelope False None (Some m)"
    by (rule serve_status_400)
qed

theorem invalid_request_type_witness:
  "serve (post None (JObject [(''type'', JString ''invalid'')]))
     = \<lparr>http_status = 400, body = Envelope False None (Some (Message ''Invalid request type''))\<rparr>
   \<and> serve (post None (JObject []))
     = \<lparr>http_status = 400, body = Envelope False None (Some (Message ''Invalid request type''))\<rparr>
   \<and> serve (post (Some 2000000) (JObject [(''type'', JString ''portfolio'')]))
     = \<lparr>http_status = 400, body = Envelope False None (Some (Message ''Request body too large''))\<rparr>"
proof -
  have a: "serve (post None (JObject [(''type'', JString ''invalid'')]))
     = \<lparr>http_status = 400, body = Envelope False None (Some (Message ''Invalid request type''))\<rparr>"
    using invalid_request_type [of "post None (JObject [(''type'', JString ''invalid'')])"
        "JObject [(''type'', JString ''invalid'')]" "Some (JString ''invalid'')"]
    by (simp add: post_def destructure_type_def maxRequestSize_def Object_prototype_def)
  have b: "serve (post None (JObject []))
     = \<lparr>http_status = 400, body = Envelope False None (Some (Message ''Invalid request type''))\<rparr>"
    using invalid_request_type [of "post None (JObject [])" "JObject []" None]
    by (simp add: post_def destructure_type_def maxRequestSize_def)
  have c: "serve (post (Some 2000000) (JObject [(''type'', JString ''portfolio'')]))
     = \<lparr>http_status = 400, body = Envelope False None (Some (Message ''Request body too large''))\<rparr>"
    using invalid_request_type [of "post (Some 2000000) (JObject [(''type'', JString ''portfolio'')])"]
    by (simp add: post_def maxRequestSize_def)
  from a b c show ?thesis by simp
qed

text \<open>
  The claim C7 as stated fails. A request of two million bytes whose discriminant is
  \<open>invalid\<close> is refused for its size, before its body is read: the error is not
  \<open>Invalid request type\<close>.
\<close>

theorem oversize_invalid_type_counterexample:
  "destructure_type (JObject [(''type'', JString ''invalid'')]) = Inr (Some (JString ''invalid''))
   \<and> serve (post (Some 2000000) (JObject [(''type'', JString ''invalid'')]))
     = \<lparr>http_status = 400, body = Envelope False None (Some (Message ''Request body too large''))\<rparr>
   \<and> serve (post (Some 2000000) (JObject [(''type'', JString ''invalid'')]))
     \<noteq> \<lparr>http_status = 400, body = Envelope False None (Some (Message ''Invalid request type''))\<rparr>"
  by (simp add: serve_def try_block_def post_def maxRequestSize_def destructure_type_def)

text \<open>
  Two requests that the amended statement leaves out: the discriminants \<open>toString\<close>, a
  name that \<open>mockResponses\<close> inherits, and \<open>["portfolio"]\<close>, an array whose property key
  is \<open>portfolio\<close>, pass the test \<open>type in mockResponses\<close> and are answered with
  status 200.
\<close>

lemma inherited_and_array_discriminants:
  "serve (post None (JObject [(''type'', JString ''toString'')]))
     = \<lparr>http_status = 200, body = No_body\<rparr>
   \<and> serve (post None (JObject [(''type'', JArray [JString ''portfolio''])]))
     = \<lparr>http_status = 200, body = Envelope True (Some portfolio) None\<rparr>"
  by (simp add: serve_def try_block_def post_def maxRequestSize_def destructure_type_def
                mockResponses_def Object_prototype_def stringify_def)

section \<open>The portfolio monitor\<close>

lemma monitor_step:
  assumes "total_value previous \<noteq> 0"
  shows "portfolio_monitor threshold last_alerted previous current =
     (if threshold \<le> \<bar>(of_int (total_value current) - of_int (total_value previous))
                        / of_int (total_value previous)\<bar>
         \<and> (case last_alerted (snapshot_owner current, account_ref current) of
                None \<Rightarrow> True
              | Some reference \<Rightarrow>
                  total_value reference = 0
                  \<or> threshold \<le> \<bar>(of_int (total_value current) - of_int (total_value reference))
                                     / of_int (total_value reference)\<bar>)
      then ([''portfolio_change''],
            last_alerted((snapshot_owner current, account_ref current) \<mapsto> current))
      else ([], last_alerted))"
  using assms
  by (auto simp: portfolio_monitor_def pct_change_def already_alerted_def split: option.splits)

lemma monitor_step_zero:
  "total_value previous = 0 \<Longrightarrow>
   portfolio_monitor threshold last_alerted previous current = ([], last_alerted)"
  by (simp add: portfolio_monitor_def pct_change_def)

lemma monitor_after_alert:
  assumes "total_value previous \<noteq> 0" and "total_value current \<noteq> 0"
    and "total_value previous2 \<noteq> 0"
    and "snapshot_owner next = snapshot_owner current" and "account_ref next = account_ref current"
    and "fst (portfolio_monitor threshold last_alerted previous current) = [''portfolio_change'']"
  shows "fst (portfolio_monitor threshold
                (snd (portfolio_monitor threshold last_alerted previous current)) previous2 next) =
     (if threshold \<le> \<bar>(of_int (total_value next) - of_int (total_value previous2))
                        / of_int (total_value previous2)\<bar>
         \<and> threshold \<le> \<bar>(of_int (total_value next) - of_int (total_value current))
                          / of_int (total_value current)\<bar>
      then [''portfolio_change''] else [])"
proof -
  have recorded: "snd (portfolio_monitor threshold last_alerted previous current)
      = last_alerted((snapshot_owner current, account_ref current) \<mapsto> current)"
    using assms(6) by (simp add: monitor_step [OF assms(1)] split: if_splits)
  show ?thesis
    using assms(2,4,5) by (simp add: recorded monitor_step [OF assms(3)])
qed

lemma monitor_runs:
  "fst (monitor_run change_threshold Map.empty
          [snapshot_of 10000000 0, snapshot_of 10600000 1, snapshot_of 10200000 2])
     = [[''portfolio_change''], []]"
  "fst (monitor_run change_threshold Map.empty
          [snapshot_of 10000000 0, snapshot_of 10600000 1, snapshot_of 10200000 2,
           snapshot_of 10720000 3, snapshot_of 11300000 4])
     = [[''portfolio_change''], [], [], [''portfolio_change'']]"
  "map_option total_value
     (snd (monitor_run change_threshold Map.empty
             [snapshot_of 10000000 0, snapshot_of 10600000 1, snapshot_of 10200000 2,
              snapshot_of 10720000 3]) (''u1'', ''acc''))
     = Some 10600000"
  by (simp_all add: portfolio_monitor_def pct_change_def already_alerted_def snapshot_of_def
                    change_threshold_def)

text \<open>
  C6. For two successive snapshots of an owner and account, the first of a value other
  than zero, the monitor appends exactly one \<open>portfolio_change\<close> notification and
  records the current snapshot as the last-alerted one when the absolute relative change
  of \<open>total_value\<close> is at least the threshold and either no snapshot of that owner and
  account has alerted yet or the value is at least the threshold away from the
  last-alerted one; otherwise it appends nothing and keeps its state. So after an alert at
  a snapshot, a later pair alerts exactly when its own change and its distance from that
  snapshot both reach the threshold. With the configured 5 percent and no earlier alert,
  100000.00 then 106000.00 gives one notification and the following 102000.00 none; a
  following 107200.00, which is 5.1 percent above 102000.00 but 1.1 percent from the
  last-alerted 106000.00, gives none either, and a following 113000.00 gives one.
\<close>

theorem portfolio_change_rule:
  "(total_value previous \<noteq> 0 \<longrightarrow>
      portfolio_monitor threshold last_alerted previous current =
        (if threshold \<le> \<bar>(of_int (total_value current) - of_int (total_value previous))
                           / of_int (total_value previous)\<bar>
            \<and> (case last_alerted (snapshot_owner current, account_ref current) of
                   None \<Rightarrow> True
                 | Some reference \<Rightarrow>
                     total_value reference = 0
                     \<or> threshold \<le> \<bar>(of_int (total_value current) - of_int (total_value reference))
                                        / of_int (total_value reference)\<bar>)
         then ([''portfolio_change''],
               last_alerted((snapshot_owner current, account_ref current) \<mapsto> current))
         else ([], last_alerted)))
   \<and> (total_value previous = 0 \<longrightarrow>
        portfolio_monitor threshold last_alerted previous current = ([], last_alerted))
   \<and> (total_value previous \<noteq> 0 \<and> total_value current \<noteq> 0 \<and> total_value previous2 \<noteq> 0
        \<and> snapshot_owner next = snapshot_owner current \<and> account_ref next = account_ref current
        \<and> fst (portfolio_monitor threshold last_alerted previous current) = [''portfolio_change''] \<longrightarrow>
        fst (portfolio_monitor threshold
               (snd (portfolio_monitor threshold last_alerted previous current)) previous2 next) =
          (if threshold \<le> \<bar>(of_int (total_value next) - of_int (total_value previous2))
                             / of_int (total_value previous2)\<bar>
              \<and> threshold \<le> \<bar>(of_int (total_value next) - of_int (total_value current))
                               / of_int (total_value current)\<bar>
           then [''portfolio_change''] else []))
   \<and> fst (monitor_run change_threshold Map.empty
            [snapshot_of 10000000 0, snapshot_of 10600000 1, snapshot_of 10200000 2])
       = [[''portfolio_change''], []]
   \<and> fst (monitor_run change_threshold Map.empty
            [snapshot_of 10000000 0, snapshot_of 10600000 1, snapshot_of 10200000 2,
             snapshot_of 10720000 3, snapshot_of 11300000 4])
       = [[''portfolio_change''], [], [], [''portfolio_change'']]
   \<and> map_option total_value
         (snd (monitor_run change_threshold Map.empty
                 [snapshot_of 10000000 0, snapshot_of 10600000 1, snapshot_of 10200000 2,
                  snapshot_of 10720000 3]) (''u1'', ''acc''))
       = Some 10600000"
proof (intro conjI impI)
  assume "total_value previous \<noteq> 0"
  then show "portfolio_monitor threshold last_alerted previous current =
        (if threshold \<le> \<bar>(of_int (total_value current) - of_int (total_value previous))
                           / of_int (total_value previous)\<bar>
            \<and> (case last_alerted (snapshot_owner current, account_ref current) of
                   None \<Rightarrow> True
                 | Some reference \<Rightarrow>
                     total_value reference = 0
                     \<or> threshold \<le> \<bar>(of_int (total_value current) - of_int (total_value reference))
                                        / of_int (total_value reference)\<bar>)
         then ([''portfolio_change''],
               last_alerted((snapshot_owner current, account_ref current) \<mapsto> current))
         else ([], last_alerted))"
    by (rule monitor_step)
next
  assume "total_value previous = 0"
  then show "portfolio_monitor threshold last_alerted previous current = ([], last_alerted)"
    by (rule monitor_step_zero)
next
  assume "total_value previous \<noteq> 0 \<and> total_value current \<noteq> 0 \<and> total_value previous2 \<noteq> 0
        \<and> snapshot_owner next = snapshot_owner current \<and> account_ref next = account_ref current
        \<and> fst (portfolio_monitor threshold last_alerted previous current) = [''portfolio_change'']"
  then show "fst (portfolio_monitor threshold
               (snd (portfolio_monitor threshold last_alerted previous current)) previous2 next) =
          (if threshold \<le> \<bar>(of_int (total_value next) - of_int (total_value previous2))
                             / of_int (total_value previous2)\<bar>
              \<and> threshold \<le> \<bar>(of_int (total_value next) - of_int (total_value current))
                               / of_int (total_value current)\<bar>
           then [''portfolio_change''] else [])"
    by (intro monitor_after_alert) simp_all
qed (rule monitor_runs)+

theorem portfolio_change_rule_witness:
  "portfolio_monitor change_threshold Map.empty (snapshot_of 10000000 0) (snapshot_of 10600000 1)
     = ([''portfolio_change''], [(''u1'', ''acc'') \<mapsto> snapshot_of 10600000 1])
   \<and> fst (portfolio_monitor change_threshold
            (snd (portfolio_monitor change_threshold Map.empty
                    (snapshot_of 10000000 0) (snapshot_of 10600000 1)))
            (snapshot_of 10200000 2) (snapshot_of 10720000 3)) = []
   \<and> fst (portfolio_monitor change_threshold
            (snd (portfolio_monitor change_threshold Map.empty
                    (snapshot_of 10000000 0) (snapshot_of 10600000 1)))
            (snapshot_of 10720000 3) (snapshot_of 11300000 4)) = [''portfolio_change'']
   \<and> portfolio_monitor change_threshold Map.empty (snapshot_of 0 0) (snapshot_of 10600000 1)
     = ([], Map.empty)"
proof -
  let ?A = "snapshot_of 10000000 0" and ?B = "snapshot_of 10600000 1"
  let ?C = "snapshot_of 10200000 2" and ?D = "snapshot_of 10720000 3"
  let ?E = "snapshot_of 11300000 4"
  have first: "portfolio_monitor change_threshold Map.empty ?A ?B
      = ([''portfolio_change''], [(''u1'', ''acc'') \<mapsto> ?B])"
    using portfolio_change_rule [of ?A change_threshold Map.empty ?B]
    by (simp add: snapshot_of_def change_threshold_def)
  have pre: "total_value ?A \<noteq> 0 \<and> total_value ?B \<noteq> 0 \<and> total_value ?C \<noteq> 0
      \<and> snapshot_owner ?D = snapshot_owner ?B \<and> account_ref ?D = account_ref ?B
      \<and> fst (portfolio_monitor change_threshold Map.empty ?A ?B) = [''portfolio_change'']"
    by (simp add: first) (simp add: snapshot_of_def)
  have pre': "total_value ?A \<noteq> 0 \<and> total_value ?B \<noteq> 0 \<and> total_value ?D \<noteq> 0
      \<and> snapshot_owner ?E = snapshot_owner ?B \<and> account_ref ?E = account_ref ?B
      \<and> fst (portfolio_monitor change_threshold Map.empty ?A ?B) = [''portfolio_change'']"
    by (simp add: first) (simp add: snapshot_of_def)
  note after = portfolio_change_rule [THEN conjunct2, THEN conjunct2, THEN conjunct1, THEN mp]
  have second: "fst (portfolio_monitor change_threshold
      (snd (portfolio_monitor change_threshold Map.empty ?A ?B)) ?C ?D) = []"
    using after [OF pre] by (simp add: snapshot_of_def change_threshold_def)
  have third: "fst (portfolio_monitor change_threshold
      (snd (portfolio_monitor change_threshold Map.empty ?A ?B)) ?D ?E) = [''portfolio_change'']"
    using after [OF pre'] by (simp add: snapshot_of_def change_threshold_def)
  have zero: "portfolio_monitor change_threshold Map.empty (snapshot_of 0 0) ?B = ([], Map.empty)"
    using portfolio_change_rule [of "snapshot_of 0 0" change_threshold Map.empty ?B]
    by (simp add: snapshot_of_def)
  from first second third zero show ?thesis by simp
qed

end
